theory Spec2Isabelle
  imports Complex_Main
begin

section \<open>Numbers of the source language\<close>

text \<open>
  The component computes with JavaScript numbers. Element heights and scroll offsets
  read from the DOM are finite and are modelled as exact reals (IEEE rounding of the
  arithmetic is not modelled). A division can leave the finite numbers: \<open>x / 0\<close> is
  \<open>Infinity\<close>, \<open>-Infinity\<close> or \<open>NaN\<close>, and these values flow through \<open>Math.floor\<close>,
  \<open>Math.round\<close>, \<open>+\<close>, \<open>-\<close> and the comparisons as IEEE 754 prescribes.
\<close>

datatype number = Fin real | PosInf | NegInf | NaN

text \<open>Division of two finite numbers; the divisors of the component are never \<open>-0\<close>.\<close>

definition num_div :: "real \<Rightarrow> real \<Rightarrow> number" where
  "num_div a b =
     (if b \<noteq> 0 then Fin (a / b)
      else if 0 < a then PosInf
      else if a < 0 then NegInf
      else NaN)"

fun Math_floor :: "number \<Rightarrow> number" where
  "Math_floor (Fin x) = Fin (of_int \<lfloor>x\<rfloor>)"
| "Math_floor n = n"

text \<open>\<open>Math.round\<close> rounds to the nearest integer, a tie towards \<open>+Infinity\<close>.\<close>

fun Math_round :: "number \<Rightarrow> number" where
  "Math_round (Fin x) = Fin (of_int \<lfloor>x + 1 / 2\<rfloor>)"
| "Math_round n = n"

fun num_add :: "number \<Rightarrow> number \<Rightarrow> number" where
  "num_add (Fin x) (Fin y) = Fin (x + y)"
| "num_add NaN _ = NaN"
| "num_add _ NaN = NaN"
| "num_add PosInf NegInf = NaN"
| "num_add NegInf PosInf = NaN"
| "num_add PosInf _ = PosInf"
| "num_add _ PosInf = PosInf"
| "num_add NegInf _ = NegInf"
| "num_add _ NegInf = NegInf"

fun num_neg :: "number \<Rightarrow> number" where
  "num_neg (Fin x) = Fin (- x)"
| "num_neg PosInf = NegInf"
| "num_neg NegInf = PosInf"
| "num_neg NaN = NaN"

definition num_sub :: "number \<Rightarrow> number \<Rightarrow> number" where
  "num_sub a b = num_add a (num_neg b)"

text \<open>\<open>a <= b\<close>; every comparison with \<open>NaN\<close> is false.\<close>

fun num_le :: "number \<Rightarrow> number \<Rightarrow> bool" where
  "num_le (Fin x) (Fin y) = (x \<le> y)"
| "num_le NaN _ = False"
| "num_le _ NaN = False"
| "num_le NegInf _ = True"
| "num_le _ PosInf = True"
| "num_le PosInf (Fin y) = False"
| "num_le (Fin x) NegInf = False"
| "num_le PosInf NegInf = False"

definition num_ge :: "number \<Rightarrow> number \<Rightarrow> bool" where
  "num_ge a b = num_le b a"


section \<open>Values and state of the component\<close>

text \<open>
  The text of the search field is whatever the inner form control holds: a string, or
  \<open>null\<close> / \<open>undefined\<close> when such a value was written from outside. \<open>!==\<close> on
  these values is inequality of the datatype.
\<close>

datatype textval = Undefined | Null | Str string

text \<open>Truthiness of a text value: only a non-empty string is truthy.\<close>

fun truthy :: "textval \<Rightarrow> bool" where
  "truthy (Str t) = (t \<noteq> [])"
| "truthy _ = False"

text \<open>
  What the host's control holds as its selection: \<open>null\<close> / \<open>undefined\<close>, one value
  (single selection) or an array of values (\<open>Array.isArray\<close>).
\<close>

datatype 'a selection = Nullish | Scalar 'a | Arr "'a list"

datatype error = TypeError

text \<open>A rendered option: its value and the height of its host element's bounding rectangle.\<close>

record 'a MatOption =
  optValue :: 'a
  hostHeight :: real

record KeyManager =
  activeItemIndex :: "int option"

text \<open>
  The host select, as far as the component reads and writes it. \<open>panel\<close> is the
  \<open>scrollTop\<close> of the panel's native element, absent while there is no panel;
  \<open>ngControl\<close> is the current value of the host's control object, absent when the host
  has none; \<open>onChange_calls\<close> records the arguments of \<open>matSelect._onChange\<close>, oldest
  first. \<open>countGroupLabelsBeforeOption\<close> stands for the framework helper
  \<open>_countGroupLabelsBeforeOption\<close> applied to this select's options and option groups.
\<close>

record 'a MatSelect =
  panel :: "real option"
  options :: "'a MatOption list"
  keyManager :: "KeyManager option"
  multiple :: bool
  ngControl :: "'a selection option"
  compareWith :: "'a \<Rightarrow> 'a \<Rightarrow> bool"
  countGroupLabelsBeforeOption :: "int \<Rightarrow> nat"
  onChange_calls :: "'a list list"

type_synonym callback = nat

text \<open>
  The component. \<open>matOption\<close> tells whether a \<open>MatOption\<close> was injected (the component
  sits inside a \<open>mat-option\<close>); \<open>innerSelectSearch\<close> is the \<open>offsetHeight\<close> of the header
  element, \<open>searchSelectInput\<close> whether the input element is there.
  \<open>valueChanges_last\<close> is the latest emission of \<open>_formControl.valueChanges\<close>;
  \<open>onChange_subscribers\<close> are the callbacks given to \<open>registerOnChange\<close>, and
  \<open>onChange_log\<close> their invocations, oldest first. \<open>options_assigned\<close> tells whether
  \<open>_options\<close> has been set to the host's query list (on the first \<open>openedChange\<close>).
  \<open>valueChanges_subscribed\<close> tells whether the subscription of
  \<open>initMultipleHandling\<close> to the control's \<open>valueChanges\<close> is installed;
  \<open>console\<close> collects the messages of \<open>console.error\<close>; \<open>pendingFocus\<close> counts
  the \<open>_focus\<close> calls deferred with \<open>setTimeout\<close>.
\<close>

record 'a MatSelectSearchComponent =
  matSelect :: "'a MatSelect"
  matOption :: bool
  noEntriesFoundLabel :: "string option"
  enableClearOnEscapePressed :: bool
  preventHomeEndKeyPropagation :: bool
  alwaysRestoreSelectedOptionsMulti :: bool
  formControl_value :: textval
  valueChanges_last :: "textval option"
  lastExternalInputValue :: textval
  onChange_subscribers :: "callback list"
  onChange_log :: "(callback \<times> textval) list"
  options_assigned :: bool
  previousSelectedValues :: "'a selection"
  valueChanges_subscribed :: bool
  console :: "string list"
  innerSelectSearch :: "real option"
  searchSelectInput :: bool
  inputFocused :: bool
  pendingFocus :: nat


section \<open>Viewport-fit scrolling\<close>

definition SELECT_PANEL_MAX_HEIGHT :: real where
  "SELECT_PANEL_MAX_HEIGHT = 256"

definition getMatOptionHeight :: "'a MatSelectSearchComponent \<Rightarrow> real" where
  "getMatOptionHeight c =
     (case options (matSelect c) of
        [] \<Rightarrow> 0
      | first # _ \<Rightarrow> hostHeight first)"


text \<open>
  \<open>adjustScrollTopToFitActiveOptionIntoView\<close>. Reading \<open>activeItemIndex\<close> of an absent
  key manager, or \<open>nativeElement\<close> of an absent header element, raises a \<open>TypeError\<close>;
  \<open>activeItemIndex || 0\<close> turns \<open>null\<close> into \<open>0\<close>. A write to \<open>scrollTop\<close> stores the
  computed number (the clamping a browser applies to it is outside the component).
\<close>

definition adjustScrollTopToFitActiveOptionIntoView ::
    "'a MatSelectSearchComponent \<Rightarrow> error + 'a MatSelectSearchComponent" where
  "adjustScrollTopToFitActiveOptionIntoView c =
     (case panel (matSelect c) of
        None \<Rightarrow> Inr c
      | Some currentScrollTop \<Rightarrow>
          if length (options (matSelect c)) > 0 then
            (case keyManager (matSelect c) of
               None \<Rightarrow> Inl TypeError
             | Some km \<Rightarrow>
                 (case innerSelectSearch c of
                    None \<Rightarrow> Inl TypeError
                  | Some searchInputHeight \<Rightarrow>
                      let matOptionHeight = getMatOptionHeight c;
                          activeOptionIndex =
                            (case activeItemIndex km of None \<Rightarrow> 0 | Some i \<Rightarrow> i);
                          labelCount =
                            int (countGroupLabelsBeforeOption (matSelect c) activeOptionIndex);
                          indexOfOptionToFitIntoView =
                            (if matOption c then - 1 else 0) + labelCount + activeOptionIndex;
                          amountOfVisibleOptions =
                            Math_floor (num_div (SELECT_PANEL_MAX_HEIGHT - searchInputHeight)
                                          matOptionHeight);
                          indexOfFirstVisibleOption =
                            num_sub (Math_round (num_div (currentScrollTop + searchInputHeight)
                                                   matOptionHeight))
                                    (Fin 1)
                      in if num_ge indexOfFirstVisibleOption
                              (Fin (of_int indexOfOptionToFitIntoView))
                         then Inr (c\<lparr>matSelect := (matSelect c)\<lparr>panel :=
                                 Some (of_int indexOfOptionToFitIntoView * matOptionHeight)\<rparr>\<rparr>)
                         else if num_le (num_add indexOfFirstVisibleOption amountOfVisibleOptions)
                                   (Fin (of_int indexOfOptionToFitIntoView))
                         then Inr (c\<lparr>matSelect := (matSelect c)\<lparr>panel :=
                                 Some (of_int (indexOfOptionToFitIntoView + 1) * matOptionHeight
                                       - (SELECT_PANEL_MAX_HEIGHT - searchInputHeight))\<rparr>\<rparr>)
                         else Inr c))
          else Inr c)"





section \<open>Filter text: the value accessor\<close>

text \<open>
  \<open>_formControl.valueChanges\<close> delivers a value to the subscriptions made by
  \<open>registerOnChange\<close>, in the order they were made. Each one is the pipeline
  \<open>filter(value => value !== this._lastExternalInputValue)\<close>,
  \<open>tap(() => this._lastExternalInputValue = undefined)\<close>, then the callback.
\<close>

fun valueChanges_emit ::
    "textval \<Rightarrow> callback list \<Rightarrow> 'a MatSelectSearchComponent \<Rightarrow> 'a MatSelectSearchComponent" where
  "valueChanges_emit v [] c = c"
| "valueChanges_emit v (fn # fns) c =
     valueChanges_emit v fns
       (if v \<noteq> lastExternalInputValue c
        then c\<lparr>lastExternalInputValue := Undefined, onChange_log := onChange_log c @ [(fn, v)]\<rparr>
        else c)"

text \<open>\<open>_formControl.setValue(v)\<close>: the control takes the value and emits it.\<close>

definition formControl_setValue ::
    "textval \<Rightarrow> 'a MatSelectSearchComponent \<Rightarrow> 'a MatSelectSearchComponent" where
  "formControl_setValue v c =
     valueChanges_emit v (onChange_subscribers c)
       (c\<lparr>formControl_value := v, valueChanges_last := Some v\<rparr>)"

definition writeValue ::
    "textval \<Rightarrow> 'a MatSelectSearchComponent \<Rightarrow> 'a MatSelectSearchComponent" where
  "writeValue v c = formControl_setValue v (c\<lparr>lastExternalInputValue := v\<rparr>)"

definition registerOnChange ::
    "callback \<Rightarrow> 'a MatSelectSearchComponent \<Rightarrow> 'a MatSelectSearchComponent" where
  "registerOnChange fn c = c\<lparr>onChange_subscribers := onChange_subscribers c @ [fn]\<rparr>"

text \<open>
  A user edit: the input element is bound to \<open>_formControl\<close>, so typing the text \<open>t\<close>
  sets the control's value to that string.
\<close>

definition userInput ::
    "string \<Rightarrow> 'a MatSelectSearchComponent \<Rightarrow> 'a MatSelectSearchComponent" where
  "userInput t c = formControl_setValue (Str t) c"

text \<open>
  \<open>_focus\<close> returns early without the input element or without a panel; otherwise it
  focuses the input and puts the panel's \<open>scrollTop\<close> back to what it was.
\<close>

definition focus :: "'a MatSelectSearchComponent \<Rightarrow> 'a MatSelectSearchComponent" where
  "focus c =
     (if \<not> searchSelectInput c \<or> panel (matSelect c) = None then c
      else c\<lparr>inputFocused := True\<rparr>)"

definition reset :: "bool \<Rightarrow> 'a MatSelectSearchComponent \<Rightarrow> 'a MatSelectSearchComponent" where
  "reset focusAfter c =
     (let c' = formControl_setValue (Str []) c
      in if focusAfter then focus c' else c')"


section \<open>Key handling\<close>

text \<open>The key codes of \<open>@angular/cdk/keycodes\<close> that the handler compares with.\<close>

definition keycode_A :: int where "keycode_A = 65"
definition keycode_Z :: int where "keycode_Z = 90"
definition ZERO :: int where "ZERO = 48"
definition NINE :: int where "NINE = 57"
definition SPACE :: int where "SPACE = 32"
definition HOME :: int where "HOME = 36"
definition END :: int where "END = 35"
definition ENTER :: int where "ENTER = 13"
definition ESCAPE :: int where "ESCAPE = 27"

record KeyboardEvent =
  key :: "string option"
  keyCode :: int
  propagationStopped :: bool

text \<open>
  \<open>_handleKeydown\<close>: three clauses in sequence. The second defers a \<open>_focus\<close> with
  \<open>setTimeout\<close>; the third is the Escape clause.
\<close>

definition handleKeydown ::
    "KeyboardEvent \<Rightarrow> 'a MatSelectSearchComponent
       \<Rightarrow> 'a MatSelectSearchComponent \<times> KeyboardEvent" where
  "handleKeydown event c =
     (let event1 =
            (if (case key event of None \<Rightarrow> False | Some k \<Rightarrow> length k = 1)
                \<or> (keyCode event \<ge> keycode_A \<and> keyCode event \<le> keycode_Z)
                \<or> (keyCode event \<ge> ZERO \<and> keyCode event \<le> NINE)
                \<or> keyCode event = SPACE
                \<or> (preventHomeEndKeyPropagation c
                    \<and> (keyCode event = HOME \<or> keyCode event = END))
             then event\<lparr>propagationStopped := True\<rparr>
             else event);
          c1 =
            (if multiple (matSelect c)
                \<and> (case key event of None \<Rightarrow> False | Some k \<Rightarrow> k \<noteq> [])
                \<and> keyCode event = ENTER
             then c\<lparr>pendingFocus := Suc (pendingFocus c)\<rparr>
             else c)
      in if enableClearOnEscapePressed c1 \<and> keyCode event = ESCAPE
            \<and> truthy (formControl_value c1)
         then (reset True c1, event1\<lparr>propagationStopped := True\<rparr>)
         else (c1, event1))"


section \<open>The "no entries found" indicator\<close>




section \<open>Multi-select restoration\<close>

text \<open>
  The \<open>forEach\<close> over the previous values: a value found neither in the current
  selection (as grown so far) nor among the option values, by the host's comparison, is
  pushed and the flag is raised.
\<close>

fun forEach_previousValue ::
    "('a \<Rightarrow> 'a \<Rightarrow> bool) \<Rightarrow> 'a list \<Rightarrow> 'a list \<Rightarrow> 'a list \<times> bool \<Rightarrow> 'a list \<times> bool" where
  "forEach_previousValue cmp optionValues [] acc = acc"
| "forEach_previousValue cmp optionValues (previousValue # rest) (current, restore) =
     (if \<not> list_ex (\<lambda>v. cmp v previousValue) current
         \<and> \<not> list_ex (\<lambda>v. cmp v previousValue) optionValues
      then forEach_previousValue cmp optionValues rest (current @ [previousValue], True)
      else forEach_previousValue cmp optionValues rest (current, restore))"

text \<open>
  The subscriber that \<open>initMultipleHandling\<close> installs on the control's
  \<open>valueChanges\<close>. It returns the component and the emitted selection as the subscriber
  leaves it (the pushes change the emitted array in place).
\<close>

definition onSelectedValuesChange ::
    "'a MatSelectSearchComponent \<Rightarrow> 'a selection
       \<Rightarrow> 'a MatSelectSearchComponent \<times> 'a selection" where
  "onSelectedValuesChange c currentSelectedValues =
     (if \<not> multiple (matSelect c)
      then (c\<lparr>previousSelectedValues := currentSelectedValues\<rparr>, currentSelectedValues)
      else if \<not> alwaysRestoreSelectedOptionsMulti c
      then (c\<lparr>previousSelectedValues := currentSelectedValues\<rparr>, currentSelectedValues)
      else
        (case (truthy (formControl_value c), previousSelectedValues c) of
           (True, Arr previous) \<Rightarrow>
             let current0 = (case currentSelectedValues of Arr vs \<Rightarrow> vs | _ \<Rightarrow> []);
                 optionValues = map optValue (options (matSelect c));
                 (current1, restoreSelectedValues) =
                    forEach_previousValue (compareWith (matSelect c)) optionValues previous
                      (current0, False);
                 c1 = c\<lparr>previousSelectedValues := Arr current1\<rparr>
             in if restoreSelectedValues
                then (c1\<lparr>matSelect := (matSelect c1)\<lparr>onChange_calls :=
                         onChange_calls (matSelect c1) @ [current1]\<rparr>\<rparr>, Arr current1)
                else (c1, Arr current1)
         | _ \<Rightarrow> (c\<lparr>previousSelectedValues := currentSelectedValues\<rparr>, currentSelectedValues)))"

definition ngControl_missing_message :: string where
  "ngControl_missing_message =
     ''the mat-select containing ngx-mat-select-search must have a ngModel or formControl directive when multiple=true''"

definition initMultipleHandling ::
    "'a MatSelectSearchComponent \<Rightarrow> 'a MatSelectSearchComponent" where
  "initMultipleHandling c =
     (case ngControl (matSelect c) of
        None \<Rightarrow>
          if multiple (matSelect c)
          then c\<lparr>console := console c @ [ngControl_missing_message]\<rparr>
          else c
      | Some v \<Rightarrow> c\<lparr>previousSelectedValues := v, valueChanges_subscribed := True\<rparr>)"

text \<open>
  An emission of the control's \<open>valueChanges\<close> reaches the subscriber only when the
  subscription is installed.
\<close>

definition valueChanges_next ::
    "'a MatSelectSearchComponent \<Rightarrow> 'a selection
       \<Rightarrow> 'a MatSelectSearchComponent \<times> 'a selection" where
  "valueChanges_next c currentSelectedValues =
     (if valueChanges_subscribed c then onSelectedValuesChange c currentSelectedValues
      else (c, currentSelectedValues))"


section \<open>Concrete configurations\<close>

text \<open>
  A select with ten rendered rows of height 40 (the first one holds the search field),
  a panel scrolled to the top, a header of height 56, and the ninth row active: the
  active row index is 7.
\<close>

definition scenario_select :: "nat MatSelect" where
  "scenario_select =
     \<lparr>panel = Some 0,
      options = map (\<lambda>v. \<lparr>optValue = v, hostHeight = 40\<rparr>) [0, 1, 2, 3, 4, 5, 6, 7, 8, 9],
      keyManager = Some \<lparr>activeItemIndex = Some 8\<rparr>,
      multiple = True,
      ngControl = Some (Arr []),
      compareWith = (=),
      countGroupLabelsBeforeOption = (\<lambda>_. 0),
      onChange_calls = []\<rparr>"

definition scenario :: "nat MatSelectSearchComponent" where
  "scenario =
     \<lparr>matSelect = scenario_select,
      matOption = True,
      noEntriesFoundLabel = Some ''Keine Optionen gefunden'',
      enableClearOnEscapePressed = False,
      preventHomeEndKeyPropagation = False,
      alwaysRestoreSelectedOptionsMulti = False,
      formControl_value = Str [],
      valueChanges_last = None,
      lastExternalInputValue = Undefined,
      onChange_subscribers = [],
      onChange_log = [],
      options_assigned = True,
      previousSelectedValues = Nullish,
      valueChanges_subscribed = False,
      console = [],
      innerSelectSearch = Some 56,
      searchSelectInput = True,
      inputFocused = False,
      pendingFocus = 0\<rparr>"



text \<open>
  A multi-select while the user filters: the values 1, 2 and 3 were selected, the filter
  text is \<open>x\<close> and only the option with value 1 is rendered.
\<close>

definition filtering_scenario :: "nat MatSelectSearchComponent" where
  "filtering_scenario =
     scenario\<lparr>matSelect := scenario_select\<lparr>options := [\<lparr>optValue = 1, hostHeight = 40\<rparr>]\<rparr>,
              alwaysRestoreSelectedOptionsMulti := True,
              formControl_value := Str ''x'',
              valueChanges_last := Some (Str ''x''),
              previousSelectedValues := Arr [1, 2, 3],
              valueChanges_subscribed := True\<rparr>"


section \<open>Viewport-fit scrolling: properties\<close>













text \<open>
  Claim C8. With no rendered option the function is a no-op: the options-count check
  keeps it from the division by the row height, which is zero then, and the component
  (its scroll offset included) is returned as it was, whatever the other inputs are.
\<close>

theorem adjustScrollTop_no_options:
  assumes "options (matSelect c) = []"
  shows "getMatOptionHeight c = 0 \<and> adjustScrollTopToFitActiveOptionIntoView c = Inr c"
  using assms
  by (simp add: getMatOptionHeight_def adjustScrollTopToFitActiveOptionIntoView_def
      split: option.split)

theorem adjustScrollTop_no_options_witness:
  "options (matSelect (scenario\<lparr>matSelect := scenario_select\<lparr>options := []\<rparr>\<rparr>)) = []
   \<and> getMatOptionHeight (scenario\<lparr>matSelect := scenario_select\<lparr>options := []\<rparr>\<rparr>) = 0
   \<and> adjustScrollTopToFitActiveOptionIntoView
        (scenario\<lparr>matSelect := scenario_select\<lparr>options := []\<rparr>\<rparr>)
       = Inr (scenario\<lparr>matSelect := scenario_select\<lparr>options := []\<rparr>\<rparr>)"
  using adjustScrollTop_no_options [of "scenario\<lparr>matSelect := scenario_select\<lparr>options := []\<rparr>\<rparr>"]
  by simp








section \<open>Multi-select restoration: properties\<close>

text \<open>What the loop over the previous values appends, and when it raises the flag.\<close>

lemma forEach_previousValue_result:
  "\<exists>restored.
     forEach_previousValue cmp opts prev (cur, r) = (cur @ restored, r \<or> restored \<noteq> [])
     \<and> (\<forall>x\<in>set restored. x \<in> set prev
            \<and> \<not> (\<exists>v\<in>set cur. cmp v x) \<and> \<not> (\<exists>v\<in>set opts. cmp v x))
     \<and> (\<forall>p\<in>set prev. \<not> (\<exists>v\<in>set cur. cmp v p) \<and> \<not> (\<exists>v\<in>set opts. cmp v p)
            \<longrightarrow> p \<in> set restored \<or> (\<exists>v\<in>set restored. cmp v p))"
proof (induction prev arbitrary: cur r)
  case Nil
  show ?case by simp
next
  case (Cons p ps)
  show ?case
  proof (cases "\<not> (\<exists>v\<in>set cur. cmp v p) \<and> \<not> (\<exists>v\<in>set opts. cmp v p)")
    case True
    from Cons.IH [of "cur @ [p]" True] obtain rs where
      rs: "forEach_previousValue cmp opts ps (cur @ [p], True) = ((cur @ [p]) @ rs, True \<or> rs \<noteq> [])"
      and sub: "\<forall>x\<in>set rs. x \<in> set ps
            \<and> \<not> (\<exists>v\<in>set (cur @ [p]). cmp v x) \<and> \<not> (\<exists>v\<in>set opts. cmp v x)"
      and cov: "\<forall>q\<in>set ps. \<not> (\<exists>v\<in>set (cur @ [p]). cmp v q) \<and> \<not> (\<exists>v\<in>set opts. cmp v q)
            \<longrightarrow> q \<in> set rs \<or> (\<exists>v\<in>set rs. cmp v q)"
      by blast
    have 1: "forEach_previousValue cmp opts (p # ps) (cur, r) = (cur @ (p # rs), r \<or> p # rs \<noteq> [])"
      using True rs by (simp add: list_ex_iff)
    have 2: "\<forall>x\<in>set (p # rs). x \<in> set (p # ps)
            \<and> \<not> (\<exists>v\<in>set cur. cmp v x) \<and> \<not> (\<exists>v\<in>set opts. cmp v x)"
      using True sub by auto
    have 3: "\<forall>q\<in>set (p # ps). \<not> (\<exists>v\<in>set cur. cmp v q) \<and> \<not> (\<exists>v\<in>set opts. cmp v q)
            \<longrightarrow> q \<in> set (p # rs) \<or> (\<exists>v\<in>set (p # rs). cmp v q)"
      using cov by auto
    from 1 2 3 show ?thesis by blast
  next
    case False
    from Cons.IH [of cur r] obtain rs where
      rs: "forEach_previousValue cmp opts ps (cur, r) = (cur @ rs, r \<or> rs \<noteq> [])"
      and sub: "\<forall>x\<in>set rs. x \<in> set ps
            \<and> \<not> (\<exists>v\<in>set cur. cmp v x) \<and> \<not> (\<exists>v\<in>set opts. cmp v x)"
      and cov: "\<forall>q\<in>set ps. \<not> (\<exists>v\<in>set cur. cmp v q) \<and> \<not> (\<exists>v\<in>set opts. cmp v q)
            \<longrightarrow> q \<in> set rs \<or> (\<exists>v\<in>set rs. cmp v q)"
      by blast
    have 1: "forEach_previousValue cmp opts (p # ps) (cur, r) = (cur @ rs, r \<or> rs \<noteq> [])"
      using False rs by (auto simp add: list_ex_iff)
    have 2: "\<forall>x\<in>set rs. x \<in> set (p # ps)
            \<and> \<not> (\<exists>v\<in>set cur. cmp v x) \<and> \<not> (\<exists>v\<in>set opts. cmp v x)"
      using sub by auto
    have 3: "\<forall>q\<in>set (p # ps). \<not> (\<exists>v\<in>set cur. cmp v q) \<and> \<not> (\<exists>v\<in>set opts. cmp v q)
            \<longrightarrow> q \<in> set rs \<or> (\<exists>v\<in>set rs. cmp v q)"
      using False cov by auto
    from 1 2 3 show ?thesis by blast
  qed
qed

lemma onSelectedValuesChange_restoring:
  assumes "multiple (matSelect c)" "alwaysRestoreSelectedOptionsMulti c"
      "truthy (formControl_value c)" "previousSelectedValues c = Arr previous"
      "forEach_previousValue (compareWith (matSelect c)) (map optValue (options (matSelect c)))
         previous (case cur of Arr vs \<Rightarrow> vs | _ \<Rightarrow> [], False) = (w, flag)"
  shows "onSelectedValuesChange c cur =
           (if flag
            then c\<lparr>previousSelectedValues := Arr w,
                    matSelect := (matSelect c)\<lparr>onChange_calls := onChange_calls (matSelect c) @ [w]\<rparr>\<rparr>
            else c\<lparr>previousSelectedValues := Arr w\<rparr>, Arr w)"
  using assms by (simp add: onSelectedValuesChange_def Let_def)

text \<open>
  Claim C3. In multi-select mode, with the restoration flag set and a non-empty filter
  text, a selection change leaves the current selection followed by restored previous
  values: each restored value was selected before and is neither in the current selection
  nor among the rendered option values, and every such previous value is restored or
  matched by a restored one, all by the host's \<open>compareWith\<close>; with equality as the
  comparison the result is, as a set, the current selection plus the previous values that
  are not rendered. When something was restored, this selection is written back through
  \<open>matSelect._onChange\<close>. For previous values a, b, c with only a selected and rendered,
  the written-back selection is a, b, c.
\<close>

theorem restoration_writes_back:
  assumes "multiple (matSelect s)"
      and "alwaysRestoreSelectedOptionsMulti s"
      and "truthy (formControl_value s)"
      and "previousSelectedValues s = Arr previous"
      and "current = (case currentSelectedValues of Arr vs \<Rightarrow> vs | _ \<Rightarrow> [])"
      and "optionValues = map optValue (options (matSelect s))"
      and "cmp = compareWith (matSelect s)"
  shows "\<exists>restored.
           onSelectedValuesChange s currentSelectedValues =
             (if restored \<noteq> []
              then s\<lparr>previousSelectedValues := Arr (current @ restored),
                        matSelect := (matSelect s)\<lparr>onChange_calls :=
                           onChange_calls (matSelect s) @ [current @ restored]\<rparr>\<rparr>
              else s\<lparr>previousSelectedValues := Arr (current @ restored)\<rparr>,
              Arr (current @ restored))
         \<and> (\<forall>x\<in>set restored. x \<in> set previous
                \<and> \<not> (\<exists>v\<in>set current. cmp v x) \<and> \<not> (\<exists>v\<in>set optionValues. cmp v x))
         \<and> (\<forall>p\<in>set previous.
                \<not> (\<exists>v\<in>set current. cmp v p) \<and> \<not> (\<exists>v\<in>set optionValues. cmp v p)
                \<longrightarrow> p \<in> set restored \<or> (\<exists>v\<in>set restored. cmp v p))
         \<and> (cmp = (=) \<longrightarrow>
                set (current @ restored) = set current \<union> (set previous - set optionValues))
         \<and> (previous = [a, b, c] \<and> current = [a] \<and> optionValues = [a]
              \<and> cmp a a \<and> \<not> cmp a b \<and> \<not> cmp a c \<and> \<not> cmp b c
              \<longrightarrow> current @ restored = [a, b, c])"
proof -
  from forEach_previousValue_result [of cmp optionValues previous current False]
  obtain restored where
    run: "forEach_previousValue cmp optionValues previous (current, False)
            = (current @ restored, restored \<noteq> [])"
    and sub: "\<forall>x\<in>set restored. x \<in> set previous
                \<and> \<not> (\<exists>v\<in>set current. cmp v x) \<and> \<not> (\<exists>v\<in>set optionValues. cmp v x)"
    and cov: "\<forall>p\<in>set previous.
                \<not> (\<exists>v\<in>set current. cmp v p) \<and> \<not> (\<exists>v\<in>set optionValues. cmp v p)
                \<longrightarrow> p \<in> set restored \<or> (\<exists>v\<in>set restored. cmp v p)"
    by auto
  have res: "onSelectedValuesChange s currentSelectedValues =
             (if restored \<noteq> []
              then s\<lparr>previousSelectedValues := Arr (current @ restored),
                        matSelect := (matSelect s)\<lparr>onChange_calls :=
                           onChange_calls (matSelect s) @ [current @ restored]\<rparr>\<rparr>
              else s\<lparr>previousSelectedValues := Arr (current @ restored)\<rparr>,
              Arr (current @ restored))"
    by (rule onSelectedValuesChange_restoring [OF assms(1-4)])
       (use run assms(5-7) in simp)
  have eq: "cmp = (=) \<longrightarrow>
              set (current @ restored) = set current \<union> (set previous - set optionValues)"
    using sub cov by auto
  have ex: "previous = [a, b, c] \<and> current = [a] \<and> optionValues = [a]
              \<and> cmp a a \<and> \<not> cmp a b \<and> \<not> cmp a c \<and> \<not> cmp b c
              \<longrightarrow> current @ restored = [a, b, c]"
  proof
    assume h: "previous = [a, b, c] \<and> current = [a] \<and> optionValues = [a]
              \<and> cmp a a \<and> \<not> cmp a b \<and> \<not> cmp a c \<and> \<not> cmp b c"
    then have "forEach_previousValue cmp optionValues previous (current, False) = ([a, b, c], True)"
      by simp
    with run show "current @ restored = [a, b, c]" by simp
  qed
  from res sub cov eq ex show ?thesis by blast
qed

lemma filtering_scenario_fields:
  "multiple (matSelect filtering_scenario)"
  "alwaysRestoreSelectedOptionsMulti filtering_scenario"
  "truthy (formControl_value filtering_scenario)"
  "previousSelectedValues filtering_scenario = Arr [1, 2, 3]"
  "map optValue (options (matSelect filtering_scenario)) = [1]"
  "compareWith (matSelect filtering_scenario) = (=)"
  "onChange_calls (matSelect filtering_scenario) = []"
  by (simp_all add: filtering_scenario_def scenario_def scenario_select_def)

theorem restoration_writes_back_witness:
  "onSelectedValuesChange filtering_scenario (Arr [1]) =
     (filtering_scenario\<lparr>previousSelectedValues := Arr [1, 2, 3],
        matSelect := (matSelect filtering_scenario)\<lparr>onChange_calls := [[1, 2, 3]]\<rparr>\<rparr>,
      Arr [1, 2, 3])"
proof -
  have cur: "[1::nat] = (case Arr [1] of Arr vs \<Rightarrow> vs | _ \<Rightarrow> [])" by simp
  from restoration_writes_back
         [OF filtering_scenario_fields(1) filtering_scenario_fields(2)
             filtering_scenario_fields(3) filtering_scenario_fields(4) cur
             filtering_scenario_fields(5) [symmetric] filtering_scenario_fields(6) [symmetric],
          of 1 2 3]
  obtain restored where
    res: "onSelectedValuesChange filtering_scenario (Arr [1]) =
             (if restored \<noteq> []
              then filtering_scenario\<lparr>previousSelectedValues := Arr ([1] @ restored),
                        matSelect := (matSelect filtering_scenario)\<lparr>onChange_calls :=
                           onChange_calls (matSelect filtering_scenario) @ [[1] @ restored]\<rparr>\<rparr>
              else filtering_scenario\<lparr>previousSelectedValues := Arr ([1] @ restored)\<rparr>,
              Arr ([1] @ restored))"
    and ex: "[1] @ restored = [1, 2, 3::nat]"
    by auto
  from ex have "restored = [2, 3]" by simp
  with res show ?thesis by (simp add: filtering_scenario_fields(7))
qed

text \<open>
  Claim C6. With the restoration flag off, or with an empty filter text, a selection
  change writes nothing back (\<open>matSelect._onChange\<close> is not called), leaves the incoming
  selection as it is, and changes nothing of the component but \<open>previousSelectedValues\<close>.
\<close>

theorem restoration_skipped:
  assumes "\<not> alwaysRestoreSelectedOptionsMulti c \<or> \<not> truthy (formControl_value c)"
  shows "onSelectedValuesChange c currentSelectedValues =
           (c\<lparr>previousSelectedValues := currentSelectedValues\<rparr>, currentSelectedValues)
         \<and> onChange_calls (matSelect (fst (onSelectedValuesChange c currentSelectedValues)))
             = onChange_calls (matSelect c)"
  using assms by (auto simp add: onSelectedValuesChange_def)

theorem restoration_skipped_witness:
  "multiple (matSelect filtering_scenario)
   \<and> onSelectedValuesChange (filtering_scenario\<lparr>alwaysRestoreSelectedOptionsMulti := False\<rparr>) (Arr [1])
       = (filtering_scenario\<lparr>alwaysRestoreSelectedOptionsMulti := False,
                              previousSelectedValues := Arr [1]\<rparr>, Arr [1])
   \<and> onSelectedValuesChange (filtering_scenario\<lparr>formControl_value := Str []\<rparr>) (Arr [1])
       = (filtering_scenario\<lparr>formControl_value := Str [], previousSelectedValues := Arr [1]\<rparr>,
          Arr [1])"
  using restoration_skipped [of "filtering_scenario\<lparr>alwaysRestoreSelectedOptionsMulti := False\<rparr>" "Arr [1]"]
    restoration_skipped [of "filtering_scenario\<lparr>formControl_value := Str []\<rparr>" "Arr [1]"]
  by (simp add: filtering_scenario_fields(1))

text \<open>
  Claim C7. When the host select has no control object, \<open>initMultipleHandling\<close> only
  logs a diagnostic, and that only in multi-select mode: it installs no subscription,
  stores no previous selection and writes nothing back, so a later selection change
  does not reach the component.
\<close>

theorem initMultipleHandling_without_control:
  assumes "ngControl (matSelect c) = None"
  shows "initMultipleHandling c =
           (if multiple (matSelect c)
            then c\<lparr>console := console c @ [ngControl_missing_message]\<rparr> else c)
         \<and> valueChanges_subscribed (initMultipleHandling c) = valueChanges_subscribed c
         \<and> previousSelectedValues (initMultipleHandling c) = previousSelectedValues c
         \<and> onChange_calls (matSelect (initMultipleHandling c)) = onChange_calls (matSelect c)
         \<and> (\<not> valueChanges_subscribed c \<longrightarrow>
              valueChanges_next (initMultipleHandling c) currentSelectedValues
                = (initMultipleHandling c, currentSelectedValues))"
  using assms by (simp add: initMultipleHandling_def valueChanges_next_def)

theorem initMultipleHandling_without_control_witness:
  "ngControl (matSelect (scenario\<lparr>matSelect := scenario_select\<lparr>ngControl := None\<rparr>\<rparr>)) = None
   \<and> initMultipleHandling (scenario\<lparr>matSelect := scenario_select\<lparr>ngControl := None\<rparr>\<rparr>)
       = scenario\<lparr>matSelect := scenario_select\<lparr>ngControl := None\<rparr>,
                  console := [ngControl_missing_message]\<rparr>
   \<and> valueChanges_next (initMultipleHandling (scenario\<lparr>matSelect := scenario_select\<lparr>ngControl := None\<rparr>\<rparr>))
        (Arr [1])
       = (initMultipleHandling (scenario\<lparr>matSelect := scenario_select\<lparr>ngControl := None\<rparr>\<rparr>), Arr [1])"
proof -
  let ?c = "scenario\<lparr>matSelect := scenario_select\<lparr>ngControl := None\<rparr>\<rparr>"
  have n: "ngControl (matSelect ?c) = None" by simp
  have m: "multiple (matSelect ?c)" "\<not> valueChanges_subscribed ?c" "console ?c = []"
    by (simp_all add: scenario_def scenario_select_def)
  note t = initMultipleHandling_without_control [OF n, of "Arr [1]"]
  have a: "initMultipleHandling ?c = ?c\<lparr>console := [ngControl_missing_message]\<rparr>"
    using t [THEN conjunct1] m by simp
  have b: "valueChanges_next (initMultipleHandling ?c) (Arr [1]) = (initMultipleHandling ?c, Arr [1])"
    using t m(2) by blast
  show ?thesis
    by (intro conjI) (rule n, rule a, rule b)
qed


section \<open>Filter text: properties\<close>

text \<open>What an emission of the text changes, for a value other than \<open>undefined\<close>.\<close>

lemma valueChanges_emit_same:
  "v = lastExternalInputValue c \<Longrightarrow> valueChanges_emit v fns c = c"
  by (induction fns) simp_all

lemma valueChanges_emit_fields:
  "formControl_value (valueChanges_emit v fns c) = formControl_value c"
  "valueChanges_last (valueChanges_emit v fns c) = valueChanges_last c"
  "onChange_subscribers (valueChanges_emit v fns c) = onChange_subscribers c"
  "matSelect (valueChanges_emit v fns c) = matSelect c"
  "matOption (valueChanges_emit v fns c) = matOption c"
  "noEntriesFoundLabel (valueChanges_emit v fns c) = noEntriesFoundLabel c"
  "options_assigned (valueChanges_emit v fns c) = options_assigned c"
  "searchSelectInput (valueChanges_emit v fns c) = searchSelectInput c"
  by (induction fns arbitrary: c) simp_all

lemma valueChanges_emit_log:
  "v \<noteq> Undefined \<Longrightarrow>
   onChange_log (valueChanges_emit v fns c) =
     (if v \<noteq> lastExternalInputValue c then onChange_log c @ map (\<lambda>fn. (fn, v)) fns
      else onChange_log c)"
  by (induction fns arbitrary: c) simp_all

lemma valueChanges_emit_last:
  "v \<noteq> Undefined \<Longrightarrow>
   lastExternalInputValue (valueChanges_emit v fns c) =
     (if v \<noteq> lastExternalInputValue c \<and> fns \<noteq> [] then Undefined
      else lastExternalInputValue c)"
  by (induction fns arbitrary: c) simp_all

lemma writeValue_log: "onChange_log (writeValue V c) = onChange_log c"
  by (simp add: writeValue_def formControl_setValue_def valueChanges_emit_same)

lemma writeValue_last: "lastExternalInputValue (writeValue V c) = V"
  by (simp add: writeValue_def formControl_setValue_def valueChanges_emit_same)

lemma writeValue_subscribers: "onChange_subscribers (writeValue V c) = onChange_subscribers c"
  by (simp add: writeValue_def formControl_setValue_def valueChanges_emit_fields)

lemma userInput_log:
  "onChange_log (userInput t c) =
     (if Str t \<noteq> lastExternalInputValue c
      then onChange_log c @ map (\<lambda>fn. (fn, Str t)) (onChange_subscribers c)
      else onChange_log c)"
  by (simp add: userInput_def formControl_setValue_def valueChanges_emit_log)

lemma userInput_last:
  "lastExternalInputValue (userInput t c) =
     (if Str t \<noteq> lastExternalInputValue c \<and> onChange_subscribers c \<noteq> [] then Undefined
      else lastExternalInputValue c)"
  by (simp add: userInput_def formControl_setValue_def valueChanges_emit_last)

lemma userInput_subscribers: "onChange_subscribers (userInput t c) = onChange_subscribers c"
  by (simp add: userInput_def formControl_setValue_def valueChanges_emit_fields)

lemma edits_equal_to_written:
  "lastExternalInputValue c = V \<Longrightarrow> \<forall>u\<in>set us. Str u = V \<Longrightarrow>
   onChange_log (fold userInput us c) = onChange_log c
   \<and> lastExternalInputValue (fold userInput us c) = V
   \<and> onChange_subscribers (fold userInput us c) = onChange_subscribers c"
proof (induction us arbitrary: c)
  case Nil
  then show ?case by simp
next
  case (Cons u us)
  have "onChange_log (userInput u c) = onChange_log c"
    "lastExternalInputValue (userInput u c) = V"
    "onChange_subscribers (userInput u c) = onChange_subscribers c"
    using Cons.prems by (simp_all add: userInput_log userInput_last userInput_subscribers)
  with Cons.IH [of "userInput u c"] Cons.prems(2) show ?case by simp
qed

lemma edits_after_forwarded:
  "lastExternalInputValue c = Undefined \<Longrightarrow>
   onChange_log (fold userInput us c) =
     onChange_log c @ concat (map (\<lambda>u. map (\<lambda>fn. (fn, Str u)) (onChange_subscribers c)) us)"
proof (induction us arbitrary: c)
  case Nil
  then show ?case by simp
next
  case (Cons u us)
  have "lastExternalInputValue (userInput u c) = Undefined"
    using Cons.prems by (simp add: userInput_last)
  from Cons.IH [OF this] Cons.prems show ?case
    by (simp add: userInput_log userInput_subscribers)
qed

text \<open>
  Claim C4 (amended). \<open>writeValue V\<close> never invokes the registered change callback and
  makes \<open>V\<close> the remembered external value. A user edit is forwarded to the callback
  exactly when its value differs from the remembered external value, and the first
  forwarded edit resets that value to \<open>undefined\<close>. So after \<open>writeValue V\<close> edits equal
  to \<open>V\<close> are not forwarded, and from the first edit that differs from \<open>V\<close> on every
  edit is forwarded, an edit back to \<open>V\<close> included.
\<close>

theorem write_back_suppression:
  "onChange_log (writeValue V c) = onChange_log c
   \<and> lastExternalInputValue (writeValue V c) = V
   \<and> onChange_log (userInput t c) =
       (if Str t \<noteq> lastExternalInputValue c
        then onChange_log c @ map (\<lambda>fn. (fn, Str t)) (onChange_subscribers c)
        else onChange_log c)
   \<and> lastExternalInputValue (userInput t c) =
       (if Str t \<noteq> lastExternalInputValue c \<and> onChange_subscribers c \<noteq> [] then Undefined
        else lastExternalInputValue c)
   \<and> ((\<forall>u\<in>set us. Str u = V) \<longrightarrow>
        onChange_log (fold userInput us (writeValue V c)) = onChange_log c)
   \<and> ((\<forall>u\<in>set us. Str u = V) \<and> Str t \<noteq> V \<and> onChange_subscribers c \<noteq> [] \<longrightarrow>
        onChange_log (fold userInput (us @ t # rest) (writeValue V c)) =
          onChange_log c
          @ concat (map (\<lambda>u. map (\<lambda>fn. (fn, Str u)) (onChange_subscribers c)) (t # rest)))"
proof -
  have quiet: "(\<forall>u\<in>set us. Str u = V) \<longrightarrow>
        onChange_log (fold userInput us (writeValue V c)) = onChange_log c"
    using edits_equal_to_written [of "writeValue V c" V us]
    by (simp add: writeValue_last writeValue_log)
  have loud: "(\<forall>u\<in>set us. Str u = V) \<and> Str t \<noteq> V \<and> onChange_subscribers c \<noteq> [] \<longrightarrow>
        onChange_log (fold userInput (us @ t # rest) (writeValue V c)) =
          onChange_log c
          @ concat (map (\<lambda>u. map (\<lambda>fn. (fn, Str u)) (onChange_subscribers c)) (t # rest))"
  proof
    assume h: "(\<forall>u\<in>set us. Str u = V) \<and> Str t \<noteq> V \<and> onChange_subscribers c \<noteq> []"
    let ?c1 = "fold userInput us (writeValue V c)"
    have c1: "onChange_log ?c1 = onChange_log c" "lastExternalInputValue ?c1 = V"
      "onChange_subscribers ?c1 = onChange_subscribers c"
      using edits_equal_to_written [of "writeValue V c" V us] h
      by (simp_all add: writeValue_last writeValue_log writeValue_subscribers)
    let ?c2 = "userInput t ?c1"
    have c2: "onChange_log ?c2 = onChange_log c @ map (\<lambda>fn. (fn, Str t)) (onChange_subscribers c)"
      "lastExternalInputValue ?c2 = Undefined"
      "onChange_subscribers ?c2 = onChange_subscribers c"
      using h by (simp_all add: userInput_log userInput_last userInput_subscribers c1)
    have "fold userInput (us @ t # rest) (writeValue V c) = fold userInput rest ?c2"
      by simp
    then show "onChange_log (fold userInput (us @ t # rest) (writeValue V c)) =
          onChange_log c
          @ concat (map (\<lambda>u. map (\<lambda>fn. (fn, Str u)) (onChange_subscribers c)) (t # rest))"
      using edits_after_forwarded [OF c2(2), of rest] by (simp add: c2)
  qed
  from quiet loud show ?thesis
    by (simp only: writeValue_log writeValue_last userInput_log userInput_last simp_thms)
qed

theorem write_back_suppression_witness:
  "onChange_subscribers (registerOnChange 0 scenario) = [0]
   \<and> onChange_log (writeValue (Str ''a'') (registerOnChange 0 scenario)) = []
   \<and> onChange_log (fold userInput [''a'', ''a''] (writeValue (Str ''a'') (registerOnChange 0 scenario))) = []
   \<and> onChange_log (fold userInput [''a'', ''ab'', ''a''] (writeValue (Str ''a'') (registerOnChange 0 scenario)))
       = [(0, Str ''ab''), (0, Str ''a'')]"
proof -
  let ?c = "registerOnChange 0 scenario"
  have s: "onChange_subscribers ?c = [0]" "onChange_log ?c = []"
    by (simp_all add: registerOnChange_def scenario_def)
  note t = write_back_suppression [of "Str ''a''" ?c "''ab''" "[''a'']" "[''a'']"]
  note t2 = write_back_suppression [of "Str ''a''" ?c "''ab''" "[''a'', ''a'']" "[]"]
  have 1: "onChange_log (writeValue (Str ''a'') ?c) = []"
    using t s by simp
  have 2: "onChange_log (fold userInput [''a'', ''a''] (writeValue (Str ''a'') ?c)) = []"
    using t2 [THEN conjunct2, THEN conjunct2, THEN conjunct2, THEN conjunct2, THEN conjunct1] s
    by simp
  have 3: "onChange_log (fold userInput ([''a''] @ ''ab'' # [''a'']) (writeValue (Str ''a'') ?c))
       = [(0, Str ''ab''), (0, Str ''a'')]"
    using t [THEN conjunct2, THEN conjunct2, THEN conjunct2, THEN conjunct2, THEN conjunct2] s
    by simp
  from s(1) 1 2 3 show ?thesis by simp
qed

text \<open>
  The remembered value is not compared for ever: after \<open>writeValue\<close> of \<open>a\<close>, the edit to
  \<open>ab\<close> is forwarded and clears it, and the edit back to \<open>a\<close>, the value written last
  from outside, is forwarded as well.
\<close>

theorem edit_back_to_written_value_counterexample:
  "lastExternalInputValue (writeValue (Str ''a'') (registerOnChange 0 scenario)) = Str ''a''
   \<and> onChange_log (userInput ''ab'' (writeValue (Str ''a'') (registerOnChange 0 scenario)))
       = [(0, Str ''ab'')]
   \<and> lastExternalInputValue (userInput ''ab'' (writeValue (Str ''a'') (registerOnChange 0 scenario)))
       = Undefined
   \<and> onChange_log (userInput ''a'' (userInput ''ab''
        (writeValue (Str ''a'') (registerOnChange 0 scenario))))
       = [(0, Str ''ab''), (0, Str ''a'')]"
proof -
  have s: "onChange_subscribers (registerOnChange 0 scenario) = [0]"
    "onChange_log (registerOnChange 0 scenario) = []"
    by (simp_all add: registerOnChange_def scenario_def)
  show ?thesis
    by (simp add: userInput_log userInput_last userInput_subscribers writeValue_log
        writeValue_last writeValue_subscribers s)
qed



section \<open>The "no entries found" indicator: properties\<close>





section \<open>Key handling: properties\<close>

lemma reset_text: "formControl_value (reset focusAfter c) = Str []"
  by (simp add: reset_def focus_def formControl_setValue_def valueChanges_emit_fields Let_def)

text \<open>
  Claim C10. On a keydown of Escape: with \<open>enableClearOnEscapePressed\<close> set and a
  non-empty search value, the search text becomes the empty string and the event's
  propagation is stopped; with the flag off or an empty search value the component is
  left as it is, and the propagation is stopped only if the first clause of the handler
  stopped it (which, for the key code of Escape, takes a one-character \<open>key\<close>).
\<close>

theorem handleKeydown_escape:
  assumes "keyCode event = ESCAPE"
  shows "(enableClearOnEscapePressed c \<and> truthy (formControl_value c) \<longrightarrow>
            formControl_value (fst (handleKeydown event c)) = Str []
            \<and> propagationStopped (snd (handleKeydown event c)))
         \<and> (\<not> enableClearOnEscapePressed c \<or> \<not> truthy (formControl_value c) \<longrightarrow>
            fst (handleKeydown event c) = c
            \<and> propagationStopped (snd (handleKeydown event c)) =
                (propagationStopped event
                 \<or> (case key event of None \<Rightarrow> False | Some k \<Rightarrow> length k = 1)))"
  using assms
  by (auto simp add: handleKeydown_def Let_def reset_text ESCAPE_def ENTER_def keycode_A_def
      keycode_Z_def ZERO_def NINE_def SPACE_def HOME_def END_def split: option.splits)

theorem handleKeydown_escape_witness:
  "keyCode \<lparr>key = Some ''Escape'', keyCode = 27, propagationStopped = False\<rparr> = ESCAPE
   \<and> formControl_value (fst (handleKeydown \<lparr>key = Some ''Escape'', keyCode = 27, propagationStopped = False\<rparr>
       (filtering_scenario\<lparr>enableClearOnEscapePressed := True\<rparr>))) = Str []
   \<and> propagationStopped (snd (handleKeydown \<lparr>key = Some ''Escape'', keyCode = 27, propagationStopped = False\<rparr>
       (filtering_scenario\<lparr>enableClearOnEscapePressed := True\<rparr>)))
   \<and> fst (handleKeydown \<lparr>key = Some ''Escape'', keyCode = 27, propagationStopped = False\<rparr>
        filtering_scenario) = filtering_scenario
   \<and> \<not> propagationStopped (snd (handleKeydown \<lparr>key = Some ''Escape'', keyCode = 27, propagationStopped = False\<rparr>
        filtering_scenario))
   \<and> fst (handleKeydown \<lparr>key = Some ''Escape'', keyCode = 27, propagationStopped = False\<rparr>
        (scenario\<lparr>enableClearOnEscapePressed := True\<rparr>))
       = scenario\<lparr>enableClearOnEscapePressed := True\<rparr>
   \<and> \<not> propagationStopped (snd (handleKeydown \<lparr>key = Some ''Escape'', keyCode = 27, propagationStopped = False\<rparr>
        (scenario\<lparr>enableClearOnEscapePressed := True\<rparr>)))"
proof -
  let ?e = "\<lparr>key = Some ''Escape'', keyCode = 27, propagationStopped = False\<rparr>"
  have k: "keyCode ?e = ESCAPE" by (simp add: ESCAPE_def)
  have f: "truthy (formControl_value filtering_scenario)"
    "\<not> enableClearOnEscapePressed filtering_scenario"
    "\<not> truthy (formControl_value scenario)"
    by (simp_all add: filtering_scenario_def scenario_def)
  have a: "formControl_value (fst (handleKeydown ?e (filtering_scenario\<lparr>enableClearOnEscapePressed := True\<rparr>))) = Str []
      \<and> propagationStopped (snd (handleKeydown ?e (filtering_scenario\<lparr>enableClearOnEscapePressed := True\<rparr>)))"
    using handleKeydown_escape [OF k, of "filtering_scenario\<lparr>enableClearOnEscapePressed := True\<rparr>"] f
    by simp
  have b: "fst (handleKeydown ?e filtering_scenario) = filtering_scenario
      \<and> \<not> propagationStopped (snd (handleKeydown ?e filtering_scenario))"
    using handleKeydown_escape [OF k, of filtering_scenario] f by simp
  have d: "fst (handleKeydown ?e (scenario\<lparr>enableClearOnEscapePressed := True\<rparr>))
         = scenario\<lparr>enableClearOnEscapePressed := True\<rparr>
      \<and> \<not> propagationStopped (snd (handleKeydown ?e (scenario\<lparr>enableClearOnEscapePressed := True\<rparr>)))"
    using handleKeydown_escape [OF k, of "scenario\<lparr>enableClearOnEscapePressed := True\<rparr>"] f by simp
  from k a b d show ?thesis by blast
qed

end
